theory Spec2Isabelle
  imports Complex_Main
begin

section \<open>The YOLO loss of \<^verbatim>\<open>yolo_loss.py\<close>\<close>

text \<open>
  The module computes with tensors of floating-point numbers. The embedding computes with
  real numbers: rounding and overflow are not modelled. Two things of the tensor library
  that real arithmetic does not have are written out:
  \<^item> an exception raised by the library or by Python is a value \<open>Inl e\<close> of a sum type;
  \<^item> the square root of a negative number is NaN, and NaN reaches the returned scalar
    through every arithmetic operation and every sum; a scalar is therefore a
    \<open>real option\<close>, where \<open>None\<close> stands for NaN.
\<close>

datatype py_error = UnboundLocalError | ShapeError

subsection \<open>\<^verbatim>\<open>intersection_over_union\<close>\<close>

text \<open>
  One box is the four values read by \<^verbatim>\<open>boxes[..., 0:1]\<close> to \<^verbatim>\<open>boxes[..., 3:4]\<close>;
  the function works elementwise over the leading dimensions, so that the model is the
  function of one pair of boxes.
\<close>

type_synonym box = "real \<times> real \<times> real \<times> real"

text \<open>Lines 16 to 19 (and 20 to 23): the corners of a box given by midpoint, width and height.\<close>

definition midpoint_corners :: "box \<Rightarrow> box" where
  "midpoint_corners b =
     (case b of (x, y, w, h) \<Rightarrow> (x - w / 2, y - h / 2, x + w / 2, y + h / 2))"

text \<open>
  Lines 15 to 33: two \<^verbatim>\<open>if\<close> statements in sequence assign the eight corner variables.
  \<open>None\<close> is the state in which they are not bound.
\<close>

definition box_corners :: "box \<Rightarrow> box \<Rightarrow> string \<Rightarrow> (box \<times> box) option" where
  "box_corners boxes_preds boxes_labels box_format =
     (let unbound = None;
          after_midpoint =
            (if box_format = ''midpoint''
             then Some (midpoint_corners boxes_preds, midpoint_corners boxes_labels)
             else unbound);
          after_corners =
            (if box_format = ''corners''
             then Some (boxes_preds, boxes_labels)
             else after_midpoint)
      in after_corners)"

text \<open>\<^verbatim>\<open>.clamp(0)\<close>: the lower bound 0.\<close>

definition clamp0 :: "real \<Rightarrow> real" where
  "clamp0 v = max v 0"

text \<open>Lines 35 to 46, on bound corner variables.\<close>

definition iou_corners :: "box \<Rightarrow> box \<Rightarrow> real" where
  "iou_corners b1 b2 =
     (case b1 of (box1_x1, box1_y1, box1_x2, box1_y2) \<Rightarrow>
      case b2 of (box2_x1, box2_y1, box2_x2, box2_y2) \<Rightarrow>
       (let x1 = max box1_x1 box2_x1;
            y1 = max box1_y1 box2_y1;
            x2 = min box1_x2 box2_x2;
            y2 = min box1_y2 box2_y2;
            intersection = clamp0 (x2 - x1) * clamp0 (y2 - y1);
            box1_area = \<bar>(box1_x2 - box1_x1) * (box1_y2 - box1_y1)\<bar>;
            box2_area = \<bar>(box2_x2 - box2_x1) * (box2_y2 - box2_y1)\<bar>
        in intersection / (box1_area + box2_area - intersection + 1 / 10 ^ 6)))"

text \<open>
  Reading an unbound local variable at line 35 raises \<^verbatim>\<open>UnboundLocalError\<close>.
\<close>

definition intersection_over_union :: "box \<Rightarrow> box \<Rightarrow> string \<Rightarrow> py_error + real" where
  "intersection_over_union boxes_preds boxes_labels box_format =
     (case box_corners boxes_preds boxes_labels box_format of
        None \<Rightarrow> Inl UnboundLocalError
      | Some (b1, b2) \<Rightarrow> Inr (iou_corners b1 b2))"


subsection \<open>Tensors\<close>

text \<open>
  A tensor is its shape and its elements in row-major order. \<^verbatim>\<open>reshape\<close> and
  \<^verbatim>\<open>flatten\<close> keep the elements and their order.
\<close>

record tensor =
  shape :: "nat list"
  data :: "real list"

definition wf_tensor :: "tensor \<Rightarrow> bool" where
  "wf_tensor t = (length (data t) = prod_list (shape t))"

text \<open>
  The elements of a tensor whose last dimension has size \<open>C\<close>, grouped by the index of the
  leading dimensions: one row of \<open>C\<close> channels for each grid cell of each image.
\<close>

definition rows :: "nat \<Rightarrow> real list \<Rightarrow> real list list" where
  "rows C xs = map (\<lambda>i. take C (drop (i * C) xs)) [0..<length xs div C]"

text \<open>\<^verbatim>\<open>r[..., a:b]\<close> on one row, and the four columns that line 16 to 33 read from a slice.\<close>

definition slice :: "nat \<Rightarrow> nat \<Rightarrow> real list \<Rightarrow> real list" where
  "slice a b r = take (b - a) (drop a r)"

definition box_of :: "real list \<Rightarrow> box" where
  "box_of r = (r ! 0, r ! 1, r ! 2, r ! 3)"

text \<open>
  \<^verbatim>\<open>torch.max(ious, dim = 0)\<close> on the stack of two values: the maximum and its index, the
  index of the first maximal value where both are equal (the library's documented rule).
\<close>

definition torch_max :: "real \<Rightarrow> real \<Rightarrow> real \<times> nat" where
  "torch_max iou_b1 iou_b2 = (max iou_b1 iou_b2, if iou_b1 < iou_b2 then 1 else 0)"

text \<open>\<^verbatim>\<open>torch.sqrt\<close>: NaN below 0.\<close>

definition torch_sqrt :: "real \<Rightarrow> real option" where
  "torch_sqrt v = (if v < 0 then None else Some (sqrt v))"

text \<open>\<^verbatim>\<open>nn.MSELoss(reduction = 'sum')\<close> on two flattened tensors of the same size.\<close>

definition mse :: "real list \<Rightarrow> real list \<Rightarrow> real" where
  "mse xs ys = (\<Sum>(x, y)\<leftarrow>zip xs ys. (x - y)\<^sup>2)"

text \<open>The first exception raised in a sequence of computations, or all their values.\<close>

fun collect :: "('e + 'a) list \<Rightarrow> 'e + 'a list" where
  "collect [] = Inr []"
| "collect (Inl e # rs) = Inl e"
| "collect (Inr v # rs) = (case collect rs of Inl e \<Rightarrow> Inl e | Inr vs \<Rightarrow> Inr (v # vs))"

subsection \<open>\<^verbatim>\<open>YoloLoss\<close>\<close>

record yolo_loss =
  S :: nat
  B :: nat
  lambda_noobj :: real
  lambda_coord :: real

text \<open>\<^verbatim>\<open>__init__\<close>, lines 49 to 55.\<close>

definition YoloLoss :: "nat \<Rightarrow> nat \<Rightarrow> yolo_loss" where
  "YoloLoss s b = \<lparr>S = s, B = b, lambda_noobj = 1 / 2, lambda_coord = 5\<rparr>"

text \<open>
  Every tensor of \<^verbatim>\<open>forward\<close> has the leading dimensions \<open>(N, S, S)\<close>, and every operation
  before the sums works on each grid cell alone. A tensor-valued variable of the source is
  modelled by the function that gives its row in one grid cell, from the row \<open>p\<close> of the
  reshaped predictions and the row \<open>t\<close> of the target in that cell.

  Lines 60 to 63: the two calls of \<^verbatim>\<open>intersection_over_union\<close> with the default format,
  and the index of the larger value.
\<close>

definition bestbox :: "real list \<Rightarrow> real list \<Rightarrow> py_error + nat" where
  "bestbox p t =
     (case intersection_over_union (box_of (slice 1 5 p)) (box_of (slice 1 5 t)) ''midpoint'' of
        Inl e \<Rightarrow> Inl e
      | Inr iou_b1 \<Rightarrow>
         (case intersection_over_union (box_of (slice 6 10 p)) (box_of (slice 1 5 t)) ''midpoint'' of
            Inl e \<Rightarrow> Inl e
          | Inr iou_b2 \<Rightarrow> Inr (snd (torch_max iou_b1 iou_b2))))"

text \<open>Line 64.\<close>

definition exists_box :: "real list \<Rightarrow> real" where
  "exists_box t = t ! 0"

text \<open>One grid cell: the value \<open>best\<close> of \<^verbatim>\<open>bestbox\<close>, the predictions and the target there.\<close>

type_synonym cell = "nat \<times> real list \<times> real list"

text \<open>Lines 69 to 72: the box selected by \<^verbatim>\<open>bestbox\<close>, masked by \<^verbatim>\<open>exists_box\<close>.\<close>

definition box_predictions_masked :: "cell \<Rightarrow> real list" where
  "box_predictions_masked c =
     (case c of (best, p, t) \<Rightarrow>
        map (\<lambda>v. exists_box t * v)
          (map2 (\<lambda>b2 b1. real best * b2 + (1 - real best) * b1) (slice 6 10 p) (slice 1 5 p)))"

text \<open>
  Lines 73 to 75: the assignment to the columns \<^verbatim>\<open>2:4\<close>. The source adds \<^verbatim>\<open>1e-6\<close>
  inside \<^verbatim>\<open>torch.abs\<close>.
\<close>

definition box_predictions :: "cell \<Rightarrow> real list" where
  "box_predictions c =
     (let masked = box_predictions_masked c
      in take 2 masked
         @ map (\<lambda>v. sgn v * sqrt \<bar>v + 1 / 10 ^ 6\<bar>) (slice 2 4 masked)
         @ drop 4 masked)"

text \<open>Line 77.\<close>

definition box_targets_masked :: "cell \<Rightarrow> real list" where
  "box_targets_masked c =
     (case c of (best, p, t) \<Rightarrow> map (\<lambda>v. exists_box t * v) (slice 1 5 t))"

text \<open>
  Line 78: the assignment to the columns \<^verbatim>\<open>2:4\<close>. An element of the row is a number or
  NaN (\<open>None\<close>).
\<close>

definition box_targets :: "cell \<Rightarrow> real option list" where
  "box_targets c =
     (let masked = box_targets_masked c
      in map Some (take 2 masked)
         @ map torch_sqrt (slice 2 4 masked)
         @ map Some (drop 4 masked))"

text \<open>Lines 81 to 84. One NaN among the elements makes the sum NaN.\<close>

definition box_loss :: "cell list \<Rightarrow> real option" where
  "box_loss cells =
     map_option (\<lambda>targets. mse (concat (map box_predictions cells)) targets)
       (those (concat (map box_targets cells)))"

text \<open>Lines 89 to 91.\<close>

definition pred_box :: "cell \<Rightarrow> real" where
  "pred_box c = (case c of (best, p, t) \<Rightarrow> real best * p ! 5 + (1 - real best) * p ! 0)"

text \<open>Lines 94 to 97.\<close>

definition object_loss :: "cell list \<Rightarrow> real" where
  "object_loss cells =
     mse (map (\<lambda>c. exists_box (snd (snd c)) * pred_box c) cells)
         (map (\<lambda>c. exists_box (snd (snd c)) * snd (snd c) ! 0) cells)"

text \<open>Lines 103 to 111.\<close>

definition no_object_loss :: "cell list \<Rightarrow> real" where
  "no_object_loss cells =
     mse (map (\<lambda>(best, p, t). (1 - exists_box t) * p ! 0) cells)
         (map (\<lambda>(best, p, t). (1 - exists_box t) * t ! 0) cells)
     + mse (map (\<lambda>(best, p, t). (1 - exists_box t) * p ! 5) cells)
           (map (\<lambda>(best, p, t). (1 - exists_box t) * t ! 0) cells)"

text \<open>Lines 122 to 127.\<close>

definition loss :: "yolo_loss \<Rightarrow> cell list \<Rightarrow> real option" where
  "loss self cells =
     map_option
       (\<lambda>bl. lambda_coord self * bl + object_loss cells + lambda_noobj self * no_object_loss cells)
       (box_loss cells)"

text \<open>The grid cells of a call: the rows of both tensors and the index chosen in each.\<close>

definition cells_of :: "real list list \<Rightarrow> real list list \<Rightarrow> py_error + cell list" where
  "cells_of P T =
     (case collect (map2 bestbox P T) of
        Inl e \<Rightarrow> Inl e
      | Inr bestboxes \<Rightarrow> Inr (zip bestboxes (zip P T)))"

text \<open>
  \<^verbatim>\<open>forward\<close>. Line 59 raises unless the number of elements is a multiple of
  \<open>S * S * (B * 5)\<close>, and then fixes \<open>N\<close>. The source reads the columns 0 to 9 of the
  predictions and 0 to 4 of the target: with \<open>B < 2\<close> or fewer than 5 target channels a
  slice is too short and a later operation raises on the shapes. The model accepts the
  targets of shape \<open>(N, S, S, C)\<close>, as the data model of the specification has them; a
  target of another shape is rejected here (the library rejects it too, unless a
  dimension of size 1 broadcasts).
  Line 129 divides by \<open>N\<close>; for \<open>N = 0\<close> that is \<open>0 / 0\<close>, NaN.
\<close>

definition forward :: "yolo_loss \<Rightarrow> tensor \<Rightarrow> tensor \<Rightarrow> py_error + real option" where
  "forward self predictions target =
     (let per_image = S self * S self * (B self * 5);
          numel = length (data predictions)
      in if per_image = 0 \<or> numel mod per_image \<noteq> 0 then Inl ShapeError
         else
          (let N = numel div per_image;
               P = rows (B self * 5) (data predictions)
           in if B self < 2 then Inl ShapeError
              else
               (case shape target of
                  [Nt, S1, S2, C] \<Rightarrow>
                    if Nt = N \<and> S1 = S self \<and> S2 = S self \<and> 5 \<le> C
                    then
                      (case cells_of P (rows C (data target)) of
                         Inl e \<Rightarrow> Inl e
                       | Inr cells \<Rightarrow>
                           Inr (if N = 0 then None
                                else map_option (\<lambda>l. l / real N) (loss self cells)))
                    else Inl ShapeError
                | _ \<Rightarrow> Inl ShapeError)))"

subsection \<open>Notions used to state the properties\<close>

text \<open>The rows of a target: its last dimension is the number of channels.\<close>

definition target_rows :: "tensor \<Rightarrow> real list list" where
  "target_rows target = rows (last (shape target)) (data target)"

text \<open>
  The shapes of the data model: predictions of shape \<open>(N, S * S * B * 5)\<close> and a target of
  shape \<open>(N, S, S, C)\<close>, for a grid of at least one cell, the two boxes per cell whose
  columns the source reads, and at least the five target channels it reads.
\<close>

definition shapes_ok :: "yolo_loss \<Rightarrow> tensor \<Rightarrow> tensor \<Rightarrow> nat \<Rightarrow> nat \<Rightarrow> bool" where
  "shapes_ok self predictions target N C =
     (1 \<le> S self \<and> 2 \<le> B self \<and> 5 \<le> C
      \<and> wf_tensor predictions \<and> shape predictions = [N, S self * S self * (B self * 5)]
      \<and> wf_tensor target \<and> shape target = [N, S self, S self, C])"

text \<open>A valid target: the indicator is 0 or 1, width and height are not negative.\<close>

definition valid_row :: "real list \<Rightarrow> bool" where
  "valid_row t = ((t ! 0 = 0 \<or> t ! 0 = 1) \<and> 0 \<le> t ! 3 \<and> 0 \<le> t ! 4)"

definition valid_target :: "tensor \<Rightarrow> bool" where
  "valid_target target = list_all valid_row (target_rows target)"

text \<open>The index that line 63 chooses in one cell, with the two calls of line 60 and 61 unfolded.\<close>

definition best_index :: "real list \<Rightarrow> real list \<Rightarrow> nat" where
  "best_index p t = snd (torch_max
      (iou_corners (midpoint_corners (box_of (slice 1 5 p))) (midpoint_corners (box_of (slice 1 5 t))))
      (iou_corners (midpoint_corners (box_of (slice 6 10 p))) (midpoint_corners (box_of (slice 1 5 t)))))"

text \<open>The grid cells of a call of \<^verbatim>\<open>forward\<close>, with that index.\<close>

definition grid_cells :: "yolo_loss \<Rightarrow> tensor \<Rightarrow> tensor \<Rightarrow> cell list" where
  "grid_cells self predictions target =
     map (\<lambda>(p, t). (best_index p t, p, t))
       (zip (rows (B self * 5) (data predictions)) (target_rows target))"


text \<open>
  What lines 73 to 78 leave between a width or height \<open>v\<close> and itself: the squared
  difference of the transformed prediction and the transformed target.
\<close>

definition sqrt_residual :: "real \<Rightarrow> real" where
  "sqrt_residual v = (sgn v * sqrt \<bar>v + 1 / 10 ^ 6\<bar> - sqrt v)\<^sup>2"

text \<open>
  The source computes with 32-bit floating-point numbers; this is the largest finite one.
  A result beyond it is returned as infinity, a value that the real numbers of this
  embedding do not have.
\<close>

definition float32_max :: real where
  "float32_max = (2 - 1 / 2 ^ 23) * 2 ^ 127"

section \<open>Properties of \<^verbatim>\<open>intersection_over_union\<close>\<close>

lemma intersection_over_union_midpoint:
  "intersection_over_union bp bl ''midpoint'' =
     Inr (iou_corners (midpoint_corners bp) (midpoint_corners bl))"
  by (simp add: intersection_over_union_def box_corners_def)

lemma clamp0_le_abs: "clamp0 (min a2 b2 - max a1 b1) \<le> \<bar>a2 - a1\<bar>"
  by (simp add: clamp0_def min_def max_def)

lemma clamp0_nonneg: "0 \<le> clamp0 v"
  by (simp add: clamp0_def)

text \<open>
  The denominator of line 46 is positive: the division is never a division by
  zero, which is why the model may use the division of the reals.
\<close>

lemma iou_denominator_pos:
  fixes a1 a2 b1 b2 c1 c2 d1 d2 :: real
  defines "i \<equiv> clamp0 (min a2 b2 - max a1 b1) * clamp0 (min c2 d2 - max c1 d1)"
  shows "0 < \<bar>(a2 - a1) * (c2 - c1)\<bar> + \<bar>(b2 - b1) * (d2 - d1)\<bar> - i + 1 / 10 ^ 6"
proof -
  have "i \<le> \<bar>a2 - a1\<bar> * \<bar>c2 - c1\<bar>"
    unfolding i_def by (intro mult_mono clamp0_le_abs clamp0_nonneg) simp
  then have "i \<le> \<bar>(a2 - a1) * (c2 - c1)\<bar>"
    by (simp add: abs_mult)
  moreover have "0 \<le> \<bar>(b2 - b1) * (d2 - d1)\<bar>"
    by simp
  moreover have "(0::real) < 1 / 10 ^ 6"
    by simp
  ultimately show ?thesis
    by linarith
qed

lemma iou_corners_nonneg: "0 \<le> iou_corners b1 b2"
proof -
  obtain a1 c1 a2 c2 where b1: "b1 = (a1, c1, a2, c2)"
    by (cases b1) auto
  obtain e1 d1 e2 d2 where b2: "b2 = (e1, d1, e2, d2)"
    by (cases b2) auto
  have "0 \<le> \<bar>(a2 - a1) * (c2 - c1)\<bar> + \<bar>(e2 - e1) * (d2 - d1)\<bar>
          - clamp0 (min a2 e2 - max a1 e1) * clamp0 (min c2 d2 - max c1 d1) + 1 / 10 ^ 6"
    using iou_denominator_pos [where ?a1.0 = a1 and ?a2.0 = a2 and ?b1.0 = e1 and ?b2.0 = e2
        and ?c1.0 = c1 and ?c2.0 = c2 and ?d1.0 = d1 and ?d2.0 = d2] by (rule less_imp_le)
  then show ?thesis
    unfolding b1 b2 iou_corners_def Let_def prod.case
    by (intro divide_nonneg_nonneg mult_nonneg_nonneg clamp0_nonneg)
qed



text \<open>
  C10: the call returns a value exactly for the formats \<^verbatim>\<open>midpoint\<close> and \<^verbatim>\<open>corners\<close>; for
  every other format the corner variables stay unbound and the call raises.
\<close>

theorem iou_defined_only_for_known_formats:
  "((\<exists>v. intersection_over_union bp bl fmt = Inr v) \<longleftrightarrow> fmt = ''midpoint'' \<or> fmt = ''corners'')
   \<and> (fmt \<noteq> ''midpoint'' \<and> fmt \<noteq> ''corners'' \<longrightarrow>
        box_corners bp bl fmt = None \<and> intersection_over_union bp bl fmt = Inl UnboundLocalError)"
  by (auto simp: intersection_over_union_def box_corners_def)

theorem iou_defined_only_for_known_formats_witness:
  "''xyxy'' \<noteq> ''midpoint'' \<and> ''xyxy'' \<noteq> ''corners''
   \<and> box_corners (0, 0, 2, 2) (0, 0, 2, 2) ''xyxy'' = None
   \<and> intersection_over_union (0, 0, 2, 2) (0, 0, 2, 2) ''xyxy'' = Inl UnboundLocalError
   \<and> (\<exists>v. intersection_over_union (0, 0, 2, 2) (0, 0, 2, 2) ''corners'' = Inr v)"
  using iou_defined_only_for_known_formats [of "(0, 0, 2, 2)" "(0, 0, 2, 2)" "''xyxy''"]
    iou_defined_only_for_known_formats [of "(0, 0, 2, 2)" "(0, 0, 2, 2)" "''corners''"]
  by simp

section \<open>Properties of \<^verbatim>\<open>forward\<close>\<close>

lemma collect_map_Inr: "collect (map (\<lambda>x. Inr (f x)) xs) = Inr (map f xs)"
  by (induction xs) auto

lemma bestbox_Inr: "bestbox p t = Inr (best_index p t)"
  by (simp add: bestbox_def best_index_def intersection_over_union_midpoint)

lemma take4_drop:
  assumes "a + 4 \<le> length r"
  shows "take 4 (drop a r) = [r ! a, r ! (a + 1), r ! (a + 2), r ! (a + 3)]"
proof -
  have "drop a r = r ! a # drop (Suc a) r"
    using assms by (intro Cons_nth_drop_Suc [symmetric]) simp
  also have "drop (Suc a) r = r ! Suc a # drop (Suc (Suc a)) r"
    using assms by (intro Cons_nth_drop_Suc [symmetric]) simp
  also have "drop (Suc (Suc a)) r = r ! Suc (Suc a) # drop (Suc (Suc (Suc a))) r"
    using assms by (intro Cons_nth_drop_Suc [symmetric]) simp
  also have "drop (Suc (Suc (Suc a))) r = r ! Suc (Suc (Suc a)) # drop (Suc (Suc (Suc (Suc a)))) r"
    using assms by (intro Cons_nth_drop_Suc [symmetric]) simp
  finally show ?thesis
    by (simp add: numeral_eq_Suc)
qed

lemma slice_1_5: "5 \<le> length r \<Longrightarrow> slice (Suc 0) 5 r = [r ! Suc 0, r ! 2, r ! 3, r ! 4]"
  using take4_drop [of 1 r] by (simp add: slice_def numeral_eq_Suc)

lemma slice_6_10: "10 \<le> length r \<Longrightarrow> slice 6 10 r = [r ! 6, r ! 7, r ! 8, r ! 9]"
  using take4_drop [of 6 r] by (simp add: slice_def)

lemma box_predictions_masked_eq:
  assumes "10 \<le> length p"
  shows "box_predictions_masked (best, p, t) =
     [t ! 0 * (real best * p ! 6 + (1 - real best) * p ! 1),
      t ! 0 * (real best * p ! 7 + (1 - real best) * p ! 2),
      t ! 0 * (real best * p ! 8 + (1 - real best) * p ! 3),
      t ! 0 * (real best * p ! 9 + (1 - real best) * p ! 4)]"
  using assms by (simp add: box_predictions_masked_def slice_1_5 slice_6_10 exists_box_def)

lemma box_predictions_eq:
  assumes "10 \<le> length p"
  shows "box_predictions (best, p, t) =
     (let m = box_predictions_masked (best, p, t)
      in [m ! 0, m ! 1, sgn (m ! 2) * sqrt \<bar>m ! 2 + 1 / 10 ^ 6\<bar>, sgn (m ! 3) * sqrt \<bar>m ! 3 + 1 / 10 ^ 6\<bar>])"
  unfolding box_predictions_def box_predictions_masked_eq [OF assms]
  by (simp add: slice_def)

lemma box_targets_masked_eq:
  assumes "5 \<le> length t"
  shows "box_targets_masked (best, p, t) = [t ! 0 * t ! 1, t ! 0 * t ! 2, t ! 0 * t ! 3, t ! 0 * t ! 4]"
  using assms by (simp add: box_targets_masked_def slice_1_5 exists_box_def)

lemma box_targets_eq:
  assumes "5 \<le> length t"
  shows "box_targets (best, p, t) =
     [Some (t ! 0 * t ! 1), Some (t ! 0 * t ! 2),
      torch_sqrt (t ! 0 * t ! 3), torch_sqrt (t ! 0 * t ! 4)]"
  unfolding box_targets_def box_targets_masked_eq [OF assms]
  by (simp add: slice_def)

lemma cells_of_eq: "cells_of P T = Inr (map (\<lambda>(p, t). (best_index p t, p, t)) (zip P T))"
proof -
  have "map2 bestbox P T = map (\<lambda>x. Inr (case x of (p, t) \<Rightarrow> best_index p t)) (zip P T)"
    by (simp add: bestbox_Inr split_def)
  then have "collect (map2 bestbox P T) = Inr (map (\<lambda>(p, t). best_index p t) (zip P T))"
    by (simp only: collect_map_Inr)
  moreover have "zip (map (\<lambda>(p, t). best_index p t) (zip P T)) (zip P T)
      = map (\<lambda>(p, t). (best_index p t, p, t)) (zip P T)"
    by (simp add: zip_map1 zip_same_conv_map split_def)
  ultimately show ?thesis
    by (simp add: cells_of_def)
qed

lemma length_rows: "length (rows C xs) = length xs div C"
  by (simp add: rows_def)

lemma length_row: "r \<in> set (rows C xs) \<Longrightarrow> length r = C"
proof -
  assume "r \<in> set (rows C xs)"
  then obtain i where i: "i < length xs div C" and r: "r = take C (drop (i * C) xs)"
    by (auto simp: rows_def)
  have "Suc i * C \<le> length xs div C * C"
    using i by (intro mult_le_mono1) simp
  also have "\<dots> \<le> length xs" by simp
  finally have "i * C + C \<le> length xs" by simp
  then show ?thesis by (simp add: r)
qed

lemma forward_eq:
  assumes "shapes_ok self predictions target N C"
  shows "forward self predictions target =
     Inr (if N = 0 then None
          else map_option (\<lambda>l. l / real N) (loss self (grid_cells self predictions target)))"
proof -
  let ?per = "S self * S self * (B self * 5)"
  from assms have sb: "1 \<le> S self" "2 \<le> B self" "5 \<le> C"
    and numel: "length (data predictions) = N * ?per"
    and tgt: "shape target = [N, S self, S self, C]"
    by (simp_all add: shapes_ok_def wf_tensor_def)
  from sb have per: "?per \<noteq> 0" "\<not> B self < 2"
    by auto
  have div: "length (data predictions) div ?per = N" "length (data predictions) mod ?per = 0"
    using per(1) by (simp_all add: numel)
  have rows: "target_rows target = rows C (data target)"
    by (simp add: target_rows_def tgt)
  show ?thesis
    unfolding forward_def Let_def div tgt grid_cells_def rows
    using per sb(3) by (simp add: cells_of_eq)
qed

lemma grid_cells_lengths:
  assumes "shapes_ok self predictions target N C" and "(best, p, t) \<in> set (grid_cells self predictions target)"
  shows "10 \<le> length p" and "5 \<le> length t" and "t \<in> set (target_rows target)"
    and "best = best_index p t"
proof -
  from assms(2) have pt: "(p, t) \<in> set (zip (rows (B self * 5) (data predictions)) (target_rows target))"
    and best: "best = best_index p t"
    by (auto simp: grid_cells_def)
  from pt have p: "p \<in> set (rows (B self * 5) (data predictions))" and t: "t \<in> set (target_rows target)"
    by (auto dest: set_zip_leftD set_zip_rightD)
  from assms(1) have "last (shape target) = C" "5 \<le> C" "2 \<le> B self"
    by (simp_all add: shapes_ok_def)
  with p t show "10 \<le> length p" "5 \<le> length t"
    by (auto simp: target_rows_def dest!: length_row)
  show "t \<in> set (target_rows target)" by fact
  show "best = best_index p t" by fact
qed

lemma length_grid_cells:
  assumes "shapes_ok self predictions target N C"
  shows "length (grid_cells self predictions target) = N * (S self * S self)"
proof -
  from assms have sb: "1 \<le> S self" "2 \<le> B self" "5 \<le> C"
    and np: "length (data predictions) = N * (S self * S self * (B self * 5))"
    and nt: "length (data target) = N * (S self * S self * C)"
    and last: "last (shape target) = C"
    by (simp_all add: shapes_ok_def wf_tensor_def)
  have "length (data predictions) = (N * (S self * S self)) * (B self * 5)"
    by (simp add: np)
  then have 1: "length (data predictions) div (B self * 5) = N * (S self * S self)"
    using sb(2) by (metis nonzero_mult_div_cancel_right mult_eq_0_iff not_numeral_le_zero zero_neq_numeral)
  have "length (data target) = (N * (S self * S self)) * C"
    by (simp add: nt)
  then have 2: "length (data target) div C = N * (S self * S self)"
    using sb(3) by (metis nonzero_mult_div_cancel_right not_numeral_le_zero)
  show ?thesis
    by (simp add: grid_cells_def target_rows_def length_rows last 1 2)
qed

lemma mse_nonneg: "0 \<le> mse xs ys"
  unfolding mse_def by (rule sum_list_nonneg) auto

lemma mse_map: "mse (map f cs) (map g cs) = (\<Sum>c\<leftarrow>cs. (f c - g c)\<^sup>2)"
  by (simp add: mse_def zip_map_map zip_same_conv_map o_def)

lemma mse_append: "length xs = length ys \<Longrightarrow> mse (xs @ xs') (ys @ ys') = mse xs ys + mse xs' ys'"
  by (simp add: mse_def)

lemma mse_concat:
  "\<forall>c\<in>set cs. length (f c) = length (g c) \<Longrightarrow>
   mse (concat (map f cs)) (concat (map g cs)) = (\<Sum>c\<leftarrow>cs. mse (f c) (g c))"
  by (induction cs) (simp_all add: mse_append, simp add: mse_def)

lemma those_Some_append: "those (map Some xs @ ys) = map_option ((@) xs) (those ys)"
  by (induction xs) (simp_all add: option.map_comp o_def option.map_ident)

lemma those_concat_Some:
  "\<forall>c\<in>set cs. f c = map Some (g c) \<Longrightarrow> those (concat (map f cs)) = Some (concat (map g cs))"
  by (induction cs) (simp_all add: those_Some_append)

lemma box_loss_sum:
  assumes "\<forall>c\<in>set cells. box_targets c = map Some (g c) \<and> length (box_predictions c) = length (g c)"
  shows "box_loss cells = Some (\<Sum>c\<leftarrow>cells. mse (box_predictions c) (g c))"
proof -
  have "those (concat (map box_targets cells)) = Some (concat (map g cells))"
    using assms by (intro those_concat_Some) simp
  moreover have "mse (concat (map box_predictions cells)) (concat (map g cells))
      = (\<Sum>c\<leftarrow>cells. mse (box_predictions c) (g c))"
    using assms by (intro mse_concat) simp
  ultimately show ?thesis
    by (simp add: box_loss_def)
qed


lemma object_loss_nonneg: "0 \<le> object_loss cells"
  by (simp add: object_loss_def mse_nonneg)

lemma no_object_loss_nonneg: "0 \<le> no_object_loss cells"
  by (simp add: no_object_loss_def mse_nonneg)

lemma box_predictions_length: "10 \<le> length p \<Longrightarrow> length (box_predictions (best, p, t)) = 4"
  by (simp add: box_predictions_eq Let_def)

lemma box_targets_valid:
  assumes "5 \<le> length t" and "valid_row t"
  shows "box_targets (best, p, t) =
     map Some [t ! 0 * t ! 1, t ! 0 * t ! 2, sqrt (t ! 0 * t ! 3), sqrt (t ! 0 * t ! 4)]"
proof -
  from assms(2) have "0 \<le> t ! 0 * t ! 3" "0 \<le> t ! 0 * t ! 4"
    by (auto simp: valid_row_def)
  then show ?thesis
    by (simp add: box_targets_eq [OF assms(1)] torch_sqrt_def not_less [symmetric])
qed

lemma box_loss_defined:
  assumes "\<forall>(best, p, t)\<in>set cells. 5 \<le> length t \<and> valid_row t"
  shows "\<exists>bl. box_loss cells = Some bl \<and> 0 \<le> bl"
proof -
  let ?g = "\<lambda>(best, p, t). [t ! 0 * t ! 1, t ! 0 * t ! 2, sqrt (t ! 0 * t ! 3), sqrt (t ! 0 * t ! 4)]"
  have "\<forall>c\<in>set cells. box_targets c = map Some (?g c)"
    using assms by (auto simp: box_targets_valid)
  then have "those (concat (map box_targets cells)) = Some (concat (map ?g cells))"
    by (rule those_concat_Some)
  then show ?thesis
    by (simp add: box_loss_def mse_nonneg)
qed

lemma forward_valid_nonneg:
  assumes ok: "shapes_ok self predictions target N C" and N: "1 \<le> N"
    and valid: "valid_target target"
    and w: "0 \<le> lambda_coord self" "0 \<le> lambda_noobj self"
  shows "\<exists>r. forward self predictions target = Inr (Some r) \<and> 0 \<le> r"
proof -
  let ?cells = "grid_cells self predictions target"
  have "\<forall>(best, p, t)\<in>set ?cells. 5 \<le> length t \<and> valid_row t"
    using grid_cells_lengths [OF ok] valid by (auto simp: valid_target_def list_all_iff)
  then obtain bl where bl: "box_loss ?cells = Some bl" "0 \<le> bl"
    using box_loss_defined by blast
  let ?l = "lambda_coord self * bl + object_loss ?cells + lambda_noobj self * no_object_loss ?cells"
  have "0 \<le> ?l"
    using w bl(2) object_loss_nonneg [of ?cells] no_object_loss_nonneg [of ?cells] by simp
  then have "0 \<le> ?l / real N"
    by simp
  moreover have "forward self predictions target = Inr (Some (?l / real N))"
    using N by (simp add: forward_eq [OF ok] loss_def bl(1))
  ultimately show ?thesis
    by blast
qed

text \<open>
  C3: for a batch of at least one image, predictions of shape \<open>(N, S * S * B * 5)\<close> with any real
  values and a valid target, \<^verbatim>\<open>forward\<close> returns a scalar that is not NaN and not negative.
\<close>

theorem forward_nonneg:
  assumes "shapes_ok (YoloLoss s b) predictions target N C" and "1 \<le> N" and "valid_target target"
  shows "\<exists>r. forward (YoloLoss s b) predictions target = Inr (Some r) \<and> 0 \<le> r"
  using assms by (intro forward_valid_nonneg [where N = N and C = C]) (simp_all add: YoloLoss_def)

lemma rows_single: "0 < C \<Longrightarrow> length xs = C \<Longrightarrow> rows C xs = [xs]"
  by (simp add: rows_def)

text \<open>
  C4: when the indicator of the target is 0 in every cell, the box loss and the object loss of
  \<^verbatim>\<open>forward\<close> are exactly 0 and the returned scalar is \<open>lambda_noobj * no_object_loss / N\<close>.
\<close>

theorem forward_all_zero_indicator:
  assumes ok: "shapes_ok (YoloLoss s b) predictions target N C"
    and zero: "\<forall>t\<in>set (target_rows target). t ! 0 = 0"
  shows "\<exists>cells. cells_of (rows (b * 5) (data predictions)) (rows C (data target)) = Inr cells
      \<and> box_loss cells = Some 0 \<and> object_loss cells = 0
      \<and> forward (YoloLoss s b) predictions target =
          Inr (if N = 0 then None
               else Some (lambda_noobj (YoloLoss s b) * no_object_loss cells / real N))"
proof -
  let ?self = "YoloLoss s b"
  let ?cells = "grid_cells ?self predictions target"
  have C: "last (shape target) = C"
    using ok by (simp add: shapes_ok_def)
  have cells: "cells_of (rows (b * 5) (data predictions)) (rows C (data target)) = Inr ?cells"
    by (simp add: cells_of_eq grid_cells_def target_rows_def C YoloLoss_def)
  have cell: "10 \<le> length p \<and> 5 \<le> length t \<and> t ! 0 = 0" if "(best, p, t) \<in> set ?cells" for best p t
    using grid_cells_lengths [OF ok that] zero by simp
  have "\<forall>c\<in>set ?cells. box_targets c = map Some [0, 0, 0, 0] \<and> length (box_predictions c) = length [0, 0, 0, 0 :: real]"
    using cell by (auto simp: box_targets_eq torch_sqrt_def box_predictions_length)
  then have "box_loss ?cells = Some (\<Sum>c\<leftarrow>?cells. mse (box_predictions c) [0, 0, 0, 0])"
    by (rule box_loss_sum)
  also have "(\<Sum>c\<leftarrow>?cells. mse (box_predictions c) [0, 0, 0, 0]) = (\<Sum>c\<leftarrow>?cells. 0)"
    using cell by (intro arg_cong [where f = sum_list] map_cong refl)
      (auto simp: box_predictions_eq box_predictions_masked_eq mse_def)
  finally have box: "box_loss ?cells = Some 0"
    by simp
  have "object_loss ?cells = (\<Sum>c\<leftarrow>?cells. 0)"
    unfolding object_loss_def mse_map using cell
    by (intro arg_cong [where f = sum_list] map_cong refl) (auto simp: exists_box_def)
  then have obj: "object_loss ?cells = 0"
    by simp
  have "forward ?self predictions target =
          Inr (if N = 0 then None
               else Some (lambda_noobj ?self * no_object_loss ?cells / real N))"
    by (simp add: forward_eq [OF ok] loss_def box obj)
  with cells box obj show ?thesis
    by blast
qed

lemma sum_list_filter_if:
  "(\<Sum>x\<leftarrow>filter P xs. f x) = (\<Sum>x\<leftarrow>xs. if P x then f x else (0::real))"
  by (induction xs) auto

lemma no_object_loss_sum:
  "no_object_loss cells = (\<Sum>(best, p, t)\<leftarrow>cells.
        ((1 - exists_box t) * p ! 0 - (1 - exists_box t) * t ! 0)\<^sup>2
      + ((1 - exists_box t) * p ! 5 - (1 - exists_box t) * t ! 0)\<^sup>2)"
  by (induction cells) (auto simp: no_object_loss_def mse_def)

text \<open>
  C5: for a valid target, the no-object loss of \<^verbatim>\<open>forward\<close> is the sum, over exactly the cells
  whose indicator is 0, of the squares of the two raw objectness scores (columns 0 and 5), each
  compared with 0; the index chosen by \<^verbatim>\<open>bestbox\<close> does not occur in it.
\<close>

theorem no_object_loss_ungated:
  assumes ok: "shapes_ok (YoloLoss s b) predictions target N C" and valid: "valid_target target"
  shows "\<exists>cells. cells_of (rows (b * 5) (data predictions)) (rows C (data target)) = Inr cells
      \<and> no_object_loss cells =
          (\<Sum>(p, t)\<leftarrow>filter (\<lambda>(p, t). t ! 0 = 0) (zip (rows (b * 5) (data predictions)) (rows C (data target))).
             (p ! 0 - 0)\<^sup>2 + (p ! 5 - 0)\<^sup>2)"
proof -
  let ?P = "rows (b * 5) (data predictions)" and ?T = "rows C (data target)"
  let ?cells = "map (\<lambda>(p, t). (best_index p t, p, t)) (zip ?P ?T)"
  have C: "target_rows target = ?T"
    using ok by (simp add: shapes_ok_def target_rows_def)
  have ind: "t ! 0 = 0 \<or> t ! 0 = 1" if "(p, t) \<in> set (zip ?P ?T)" for p t
    using valid set_zip_rightD [OF that] by (auto simp: valid_target_def C list_all_iff valid_row_def)
  have "no_object_loss ?cells = (\<Sum>(best, p, t)\<leftarrow>?cells.
        ((1 - exists_box t) * p ! 0 - (1 - exists_box t) * t ! 0)\<^sup>2
      + ((1 - exists_box t) * p ! 5 - (1 - exists_box t) * t ! 0)\<^sup>2)"
    by (rule no_object_loss_sum)
  also have "\<dots> = (\<Sum>(p, t)\<leftarrow>zip ?P ?T.
        ((1 - exists_box t) * p ! 0 - (1 - exists_box t) * t ! 0)\<^sup>2
      + ((1 - exists_box t) * p ! 5 - (1 - exists_box t) * t ! 0)\<^sup>2)"
    by (simp add: o_def split_def)
  also have "\<dots> = (\<Sum>x\<leftarrow>zip ?P ?T. if (case x of (p, t) \<Rightarrow> t ! 0 = 0)
        then (case x of (p, t) \<Rightarrow> (p ! 0 - 0)\<^sup>2 + (p ! 5 - 0)\<^sup>2) else 0)"
  proof (intro arg_cong [where f = sum_list] map_cong refl)
    fix x assume x: "x \<in> set (zip ?P ?T)"
    obtain p t where pt: "x = (p, t)"
      by (cases x) auto
    from ind [of p t] x have "t ! 0 = 0 \<or> t ! 0 = 1"
      by (simp add: pt)
    then show "(case x of (p, t) \<Rightarrow>
          ((1 - exists_box t) * p ! 0 - (1 - exists_box t) * t ! 0)\<^sup>2
        + ((1 - exists_box t) * p ! 5 - (1 - exists_box t) * t ! 0)\<^sup>2)
      = (if (case x of (p, t) \<Rightarrow> t ! 0 = 0)
         then (case x of (p, t) \<Rightarrow> (p ! 0 - 0)\<^sup>2 + (p ! 5 - 0)\<^sup>2) else 0)"
      by (auto simp: pt exists_box_def)
  qed
  also have "\<dots> = (\<Sum>(p, t)\<leftarrow>filter (\<lambda>(p, t). t ! 0 = 0) (zip ?P ?T). (p ! 0 - 0)\<^sup>2 + (p ! 5 - 0)\<^sup>2)"
    by (simp only: sum_list_filter_if)
  finally have "no_object_loss ?cells =
      (\<Sum>(p, t)\<leftarrow>filter (\<lambda>(p, t). t ! 0 = 0) (zip ?P ?T). (p ! 0 - 0)\<^sup>2 + (p ! 5 - 0)\<^sup>2)" .
  moreover have "cells_of ?P ?T = Inr ?cells"
    by (rule cells_of_eq)
  ultimately show ?thesis
    by blast
qed

theorem forward_nonneg_witness:
  "shapes_ok (YoloLoss 1 2) \<lparr>shape = [1, 10], data = [1, 0, 0, 1, 1, 1, 0, 0, 1, 1]\<rparr>
      \<lparr>shape = [1, 1, 1, 5], data = [1, 0, 0, 1, 1]\<rparr> 1 5
   \<and> valid_target \<lparr>shape = [1, 1, 1, 5], data = [1, 0, 0, 1, 1]\<rparr>
   \<and> (\<exists>r. forward (YoloLoss 1 2) \<lparr>shape = [1, 10], data = [1, 0, 0, 1, 1, 1, 0, 0, 1, 1]\<rparr>
          \<lparr>shape = [1, 1, 1, 5], data = [1, 0, 0, 1, 1]\<rparr> = Inr (Some r) \<and> 0 \<le> r)"
proof -
  let ?P = "\<lparr>shape = [1, 10], data = [1, 0, 0, 1, 1, 1, 0, 0, 1, 1 :: real]\<rparr>"
  let ?T = "\<lparr>shape = [1, 1, 1, 5], data = [1, 0, 0, 1, 1 :: real]\<rparr>"
  have ok: "shapes_ok (YoloLoss 1 2) ?P ?T 1 5"
    by (simp add: shapes_ok_def YoloLoss_def wf_tensor_def)
  have valid: "valid_target ?T"
    by (simp add: valid_target_def target_rows_def rows_single valid_row_def)
  from forward_nonneg [OF ok _ valid] ok valid show ?thesis
    by simp
qed

theorem forward_all_zero_indicator_witness:
  "shapes_ok (YoloLoss 1 2) \<lparr>shape = [1, 10], data = [3, 0, 0, 1, 1, 4, 0, 0, 1, 1]\<rparr>
      \<lparr>shape = [1, 1, 1, 5], data = [0, 0, 0, 1, 1]\<rparr> 1 5
   \<and> target_rows \<lparr>shape = [1, 1, 1, 5], data = [0, 0, 0, 1, 1]\<rparr> = [[0, 0, 0, 1, 1]]
   \<and> (\<exists>cells. cells_of (rows (2 * 5) [3, 0, 0, 1, 1, 4, 0, 0, 1, 1]) (rows 5 [0, 0, 0, 1, 1]) = Inr cells
        \<and> box_loss cells = Some 0 \<and> object_loss cells = 0
        \<and> forward (YoloLoss 1 2) \<lparr>shape = [1, 10], data = [3, 0, 0, 1, 1, 4, 0, 0, 1, 1]\<rparr>
            \<lparr>shape = [1, 1, 1, 5], data = [0, 0, 0, 1, 1]\<rparr>
           = Inr (Some (lambda_noobj (YoloLoss 1 2) * no_object_loss cells / real 1)))"
proof -
  let ?P = "\<lparr>shape = [1, 10], data = [3, 0, 0, 1, 1, 4, 0, 0, 1, 1 :: real]\<rparr>"
  let ?T = "\<lparr>shape = [1, 1, 1, 5], data = [0, 0, 0, 1, 1 :: real]\<rparr>"
  have ok: "shapes_ok (YoloLoss 1 2) ?P ?T 1 5"
    by (simp add: shapes_ok_def YoloLoss_def wf_tensor_def)
  have zero: "\<forall>t\<in>set (target_rows ?T). t ! 0 = 0"
    by (simp add: target_rows_def rows_single)
  have rows: "target_rows ?T = [[0, 0, 0, 1, 1]]"
    by (simp add: target_rows_def rows_single)
  from forward_all_zero_indicator [OF ok zero] ok rows show ?thesis
    by simp
qed

theorem no_object_loss_ungated_witness:
  "shapes_ok (YoloLoss 1 2) \<lparr>shape = [1, 10], data = [3, 0, 0, 1, 1, 4, 0, 0, 1, 1]\<rparr>
      \<lparr>shape = [1, 1, 1, 5], data = [0, 0, 0, 1, 1]\<rparr> 1 5
   \<and> valid_target \<lparr>shape = [1, 1, 1, 5], data = [0, 0, 0, 1, 1]\<rparr>
   \<and> (\<exists>cells. cells_of (rows (2 * 5) [3, 0, 0, 1, 1, 4, 0, 0, 1, 1]) (rows 5 [0, 0, 0, 1, 1]) = Inr cells
        \<and> no_object_loss cells = 25)"
proof -
  let ?P = "\<lparr>shape = [1, 10], data = [3, 0, 0, 1, 1, 4, 0, 0, 1, 1 :: real]\<rparr>"
  let ?T = "\<lparr>shape = [1, 1, 1, 5], data = [0, 0, 0, 1, 1 :: real]\<rparr>"
  have ok: "shapes_ok (YoloLoss 1 2) ?P ?T 1 5"
    by (simp add: shapes_ok_def YoloLoss_def wf_tensor_def)
  have valid: "valid_target ?T"
    by (simp add: valid_target_def target_rows_def rows_single valid_row_def)
  from no_object_loss_ungated [OF ok valid] ok valid show ?thesis
    by (simp add: rows_single)
qed

text \<open>
  C7: in a cell where the two values of the intersection over union are equal, \<^verbatim>\<open>bestbox\<close> is 0,
  so that the box loss uses the columns \<^verbatim>\<open>1:5\<close> of the predictions and the object loss their
  column 0.
\<close>

theorem tie_selects_box_0:
  assumes len: "10 \<le> length p"
    and tie: "intersection_over_union (box_of (slice 1 5 p)) (box_of (slice 1 5 t)) ''midpoint''
            = intersection_over_union (box_of (slice 6 10 p)) (box_of (slice 1 5 t)) ''midpoint''"
  shows "\<exists>best. bestbox p t = Inr best \<and> best = 0
      \<and> box_predictions_masked (best, p, t) = map (\<lambda>v. exists_box t * v) (slice 1 5 p)
      \<and> pred_box (best, p, t) = p ! 0"
proof -
  from tie have "bestbox p t = Inr 0"
    by (simp add: bestbox_def intersection_over_union_midpoint torch_max_def)
  moreover have "box_predictions_masked (0, p, t) = map (\<lambda>v. exists_box t * v) (slice 1 5 p)"
    using len by (simp add: box_predictions_masked_eq slice_1_5 exists_box_def)
  moreover have "pred_box (0, p, t) = p ! 0"
    by (simp add: pred_box_def)
  ultimately show ?thesis
    by blast
qed

theorem tie_selects_box_0_witness:
  "(10::nat) \<le> length [7, 0, 0, 0, 0, 9, 0, 0, 0, 0 :: real]
   \<and> intersection_over_union (box_of (slice 1 5 [7, 0, 0, 0, 0, 9, 0, 0, 0, 0])) (box_of (slice 1 5 [1, 0, 0, 1, 1])) ''midpoint''
     = intersection_over_union (box_of (slice 6 10 [7, 0, 0, 0, 0, 9, 0, 0, 0, 0])) (box_of (slice 1 5 [1, 0, 0, 1, 1])) ''midpoint''
   \<and> bestbox [7, 0, 0, 0, 0, 9, 0, 0, 0, 0] [1, 0, 0, 1, 1] = Inr 0
   \<and> pred_box (0, [7, 0, 0, 0, 0, 9, 0, 0, 0, 0], [1, 0, 0, 1, 1]) = 7"
proof -
  let ?p = "[7, 0, 0, 0, 0, 9, 0, 0, 0, 0 :: real]" and ?t = "[1, 0, 0, 1, 1 :: real]"
  have len: "10 \<le> length ?p"
    by simp
  have tie: "intersection_over_union (box_of (slice 1 5 ?p)) (box_of (slice 1 5 ?t)) ''midpoint''
            = intersection_over_union (box_of (slice 6 10 ?p)) (box_of (slice 1 5 ?t)) ''midpoint''"
    by (simp add: slice_def box_of_def)
  from tie_selects_box_0 [OF len tie] len tie show ?thesis
    by auto
qed

lemma slice_take5: "slice 1 5 (take 5 t) = slice 1 5 t"
  by (simp add: slice_def drop_take)

lemma nth0_take5: "take 5 t ! 0 = t ! 0"
  by simp

lemma best_index_take5: "best_index p (take 5 t) = best_index p t"
  unfolding best_index_def slice_take5 ..

lemma box_predictions_take5: "box_predictions (best, p, take 5 t) = box_predictions (best, p, t)"
  unfolding box_predictions_def box_predictions_masked_def exists_box_def prod.case nth0_take5 ..

lemma box_targets_take5: "box_targets (best, p, take 5 t) = box_targets (best, p, t)"
  unfolding box_targets_def box_targets_masked_def exists_box_def prod.case nth0_take5 slice_take5 ..

lemma loss_take5:
  "loss self (map (\<lambda>(best, p, t). (best, p, take 5 t)) cells) = loss self cells"
proof -
  let ?trim = "\<lambda>(best, p, t). (best, p, take 5 t)"
  have bp: "map box_predictions (map ?trim cells) = map box_predictions cells"
    by (simp add: split_def box_predictions_take5 o_def)
  have bt: "map box_targets (map ?trim cells) = map box_targets cells"
    by (simp add: split_def box_targets_take5 o_def)
  have box: "box_loss (map ?trim cells) = box_loss cells"
    unfolding box_loss_def bp bt ..
  have obj: "object_loss (map ?trim cells) = object_loss cells"
    by (simp add: object_loss_def split_def o_def exists_box_def pred_box_def)
  have noobj: "no_object_loss (map ?trim cells) = no_object_loss cells"
    by (simp add: no_object_loss_def split_def o_def exists_box_def)
  show ?thesis
    unfolding loss_def box obj noobj ..
qed

lemma loss_grid_take5:
  "loss self (map (\<lambda>(p, t). (best_index p t, p, t)) (zip P T))
   = loss self (map (\<lambda>(p, t). (best_index p t, p, t)) (zip P (map (take 5) T)))"
proof -
  have "map (\<lambda>(best, p, t). (best, p, take 5 t)) (map (\<lambda>(p, t). (best_index p t, p, t)) (zip P T))
      = map (\<lambda>(p, t). (best_index p t, p, t)) (zip P (map (take 5) T))"
    by (simp add: zip_map2 split_def o_def best_index_take5)
  then show ?thesis
    using loss_take5 [of self "map (\<lambda>(p, t). (best_index p t, p, t)) (zip P T)"] by simp
qed

text \<open>
  C9: two targets of the same shape that agree on the channels 0 to 4 of every cell give the
  same result of \<^verbatim>\<open>forward\<close>, for the same predictions: a raised error, NaN or a scalar.
\<close>

theorem forward_reads_target_channels_0_to_4:
  assumes same: "shape target1 = shape target2"
    and agree: "map (take 5) (target_rows target1) = map (take 5) (target_rows target2)"
  shows "forward self predictions target1 = forward self predictions target2"
proof -
  have "loss self (map (\<lambda>(p, t). (best_index p t, p, t)) (zip P (target_rows target1)))
      = loss self (map (\<lambda>(p, t). (best_index p t, p, t)) (zip P (target_rows target2)))" for P
    using loss_grid_take5 [of self P "target_rows target1"]
      loss_grid_take5 [of self P "target_rows target2"] agree by simp
  then show ?thesis
    unfolding forward_def Let_def cells_of_eq using same
    by (auto simp: target_rows_def split: list.splits)
qed

theorem forward_reads_target_channels_0_to_4_witness:
  "shape \<lparr>shape = [1, 1, 1, 6], data = [1, 0, 0, 1, 1, 2]\<rparr> = shape \<lparr>shape = [1, 1, 1, 6], data = [1, 0, 0, 1, 1, 3]\<rparr>
   \<and> map (take 5) (target_rows \<lparr>shape = [1, 1, 1, 6], data = [1, 0, 0, 1, 1, 2]\<rparr>)
     = map (take 5) (target_rows \<lparr>shape = [1, 1, 1, 6], data = [1, 0, 0, 1, 1, 3]\<rparr>)
   \<and> forward (YoloLoss 1 2) \<lparr>shape = [1, 10], data = [1, 0, 0, 1, 1, 1, 0, 0, 1, 1]\<rparr>
        \<lparr>shape = [1, 1, 1, 6], data = [1, 0, 0, 1, 1, 2]\<rparr>
     = forward (YoloLoss 1 2) \<lparr>shape = [1, 10], data = [1, 0, 0, 1, 1, 1, 0, 0, 1, 1]\<rparr>
        \<lparr>shape = [1, 1, 1, 6], data = [1, 0, 0, 1, 1, 3]\<rparr>"
proof -
  let ?t1 = "\<lparr>shape = [1, 1, 1, 6], data = [1, 0, 0, 1, 1, 2 :: real]\<rparr>"
  let ?t2 = "\<lparr>shape = [1, 1, 1, 6], data = [1, 0, 0, 1, 1, 3 :: real]\<rparr>"
  have same: "shape ?t1 = shape ?t2"
    by simp
  have agree: "map (take 5) (target_rows ?t1) = map (take 5) (target_rows ?t2)"
    by (simp add: target_rows_def rows_single)
  from forward_reads_target_channels_0_to_4 [OF same agree] same agree show ?thesis
    by blast
qed

lemma rows_elems: "r \<in> set (rows C xs) \<Longrightarrow> set r \<subseteq> set xs"
  by (auto simp: rows_def dest!: in_set_takeD in_set_dropD)

lemma valid_row_ones:
  assumes "r \<in> set (rows C (replicate n 1))" and "5 \<le> C"
  shows "valid_row r"
proof -
  have len: "length r = C"
    using assms(1) by (rule length_row)
  have "set r \<subseteq> {1}"
    using rows_elems [OF assms(1)] by auto
  then have "r ! i = 1" if "i < C" for i
  proof -
    from that len have "r ! i \<in> set r"
      by (intro nth_mem) simp
    with \<open>set r \<subseteq> {1}\<close> show ?thesis
      by auto
  qed
  then have "r ! 0 = 1" "r ! 3 = 1" "r ! 4 = 1"
    using assms(2) by simp_all
  then show ?thesis
    by (simp add: valid_row_def)
qed

text \<open>
  C8, as the source has it: the self-test. With \<open>S = 7\<close> and \<open>B = 2\<close>, any real predictions
  of shape \<open>(13, 7 * 7 * 10)\<close> and the target of shape \<open>(13, 7, 7, 10)\<close> whose elements are all
  1, \<^verbatim>\<open>forward\<close> raises no error and returns one scalar that is not NaN and not negative.
  That the scalar is finite is not part of the statement: it fails for large predictions.
\<close>

theorem forward_self_test:
  assumes "wf_tensor predictions" and "shape predictions = [13, 7 * 7 * 10]"
  shows "\<exists>r. forward (YoloLoss 7 2) predictions
            \<lparr>shape = [13, 7, 7, 10], data = replicate (13 * 7 * 7 * 10) 1\<rparr> = Inr (Some r)
          \<and> 0 \<le> r"
proof -
  let ?target = "\<lparr>shape = [13, 7, 7, 10], data = replicate (13 * 7 * 7 * 10) (1::real)\<rparr>"
  have ok: "shapes_ok (YoloLoss 7 2) predictions ?target 13 10"
    using assms by (simp add: shapes_ok_def YoloLoss_def wf_tensor_def)
  have valid: "valid_target ?target"
    by (auto simp: valid_target_def target_rows_def list_all_iff intro: valid_row_ones)
  show ?thesis
    using ok valid by (intro forward_valid_nonneg [where N = 13 and C = 10]) (simp_all add: YoloLoss_def)
qed

theorem forward_self_test_witness:
  "wf_tensor \<lparr>shape = [13, 7 * 7 * 10], data = replicate 6370 0\<rparr>
   \<and> (\<exists>r. forward (YoloLoss 7 2) \<lparr>shape = [13, 7 * 7 * 10], data = replicate 6370 0\<rparr>
            \<lparr>shape = [13, 7, 7, 10], data = replicate (13 * 7 * 7 * 10) 1\<rparr> = Inr (Some r)
          \<and> 0 \<le> r)"
proof -
  have wf: "wf_tensor \<lparr>shape = [13, 7 * 7 * 10], data = replicate 6370 (0::real)\<rparr>"
    by (simp add: wf_tensor_def)
  from forward_self_test [OF wf] wf show ?thesis
    by simp
qed

text \<open>
  C1, as the source has it: the width and height of the masked selected box \<open>v\<close> enter the
  squared difference as \<open>sign v * sqrt \<bar>v + 1e-6\<bar>\<close>, the constant being added inside the
  absolute value; for \<open>v \<ge> 0\<close> that is \<open>sign v * sqrt (\<bar>v\<bar> + 1e-6)\<close>. The width and height
  \<open>u\<close> of the masked target enter as the plain \<^verbatim>\<open>torch.sqrt\<close> of \<open>u\<close>: the square root of
  \<open>u \<ge> 0\<close>, and NaN for \<open>u < 0\<close>, each element on its own.
\<close>

theorem wh_transform:
  assumes "10 \<le> length p" and "5 \<le> length t" and "k = 2 \<or> k = 3"
  shows "box_predictions (best, p, t) ! k
           = sgn (box_predictions_masked (best, p, t) ! k)
             * sqrt \<bar>box_predictions_masked (best, p, t) ! k + 1 / 10 ^ 6\<bar>
      \<and> (0 \<le> box_predictions_masked (best, p, t) ! k \<longrightarrow>
           box_predictions (best, p, t) ! k
             = sgn (box_predictions_masked (best, p, t) ! k)
               * sqrt (\<bar>box_predictions_masked (best, p, t) ! k\<bar> + 1 / 10 ^ 6))
      \<and> box_targets (best, p, t) ! k
           = (if box_targets_masked (best, p, t) ! k < 0 then None
              else Some (sqrt (box_targets_masked (best, p, t) ! k)))"
proof -
  let ?m = "box_predictions_masked (best, p, t)"
  have pred: "box_predictions (best, p, t) ! k = sgn (?m ! k) * sqrt \<bar>?m ! k + 1 / 10 ^ 6\<bar>"
    using assms(3) by (auto simp: box_predictions_eq [OF assms(1)] Let_def numeral_3_eq_3 numeral_2_eq_2)
  have nonneg: "\<bar>?m ! k + 1 / 10 ^ 6\<bar> = \<bar>?m ! k\<bar> + 1 / 10 ^ 6" if "0 \<le> ?m ! k"
    using that by simp
  have tgt: "box_targets (best, p, t) ! k
      = (if box_targets_masked (best, p, t) ! k < 0 then None
         else Some (sqrt (box_targets_masked (best, p, t) ! k)))"
    using assms(3)
    by (auto simp: box_targets_eq [OF assms(2)] box_targets_masked_eq [OF assms(2)]
        torch_sqrt_def numeral_3_eq_3 numeral_2_eq_2)
  from pred nonneg tgt show ?thesis
    by simp
qed

theorem wh_transform_witness:
  "(10::nat) \<le> length [0, 0, 0, 4, 0, 0, 0, 0, 0, 0 :: real] \<and> (5::nat) \<le> length [1, 0, 0, 4, 9 :: real]
   \<and> box_predictions_masked (0, [0, 0, 0, 4, 0, 0, 0, 0, 0, 0], [1, 0, 0, 4, 9]) ! 2 = 4
   \<and> box_predictions (0, [0, 0, 0, 4, 0, 0, 0, 0, 0, 0], [1, 0, 0, 4, 9]) ! 2 = sqrt (4 + 1 / 10 ^ 6)
   \<and> box_targets (0, [0, 0, 0, 4, 0, 0, 0, 0, 0, 0], [1, 0, 0, 4, 9]) ! 2 = Some 2
   \<and> box_targets_masked (0, [0, 0, 0, 4, 0, 0, 0, 0, 0, 0], [1, 0, 0, - 4, 9]) ! 2 = - 4
   \<and> box_targets (0, [0, 0, 0, 4, 0, 0, 0, 0, 0, 0], [1, 0, 0, - 4, 9]) ! 2 = None
   \<and> box_targets (0, [0, 0, 0, 4, 0, 0, 0, 0, 0, 0], [1, 0, 0, - 4, 9]) ! 3 = Some 3"
proof -
  let ?p = "[0, 0, 0, 4, 0, 0, 0, 0, 0, 0 :: real]" and ?t = "[1, 0, 0, 4, 9 :: real]"
  have len: "10 \<le> length ?p" "5 \<le> length ?t"
    by simp_all
  have m: "box_predictions_masked (0, ?p, ?t) ! 2 = 4"
    by (simp add: box_predictions_masked_eq)
  let ?t' = "[1, 0, 0, - 4, 9 :: real]"
  have len': "5 \<le> length ?t'"
    by simp
  have u: "box_targets_masked (0, ?p, ?t) ! 2 = 4"
    by (simp add: box_targets_masked_eq)
  have u': "box_targets_masked (0, ?p, ?t') ! 2 = - 4" "box_targets_masked (0, ?p, ?t') ! 3 = 9"
    by (simp_all add: box_targets_masked_eq numeral_3_eq_3)
  have "sqrt 4 = sqrt (2\<^sup>2)" "sqrt 9 = sqrt (3\<^sup>2)"
    by simp_all
  then have s: "sqrt 4 = 2" "sqrt 9 = 3"
    by (simp_all only: real_sqrt_abs abs_numeral)
  from wh_transform [OF len, of 2 0] wh_transform [OF len(1) len', of 2 0]
    wh_transform [OF len(1) len', of 3 0] len m u u' s
  show ?thesis
    by simp
qed

text \<open>
  With the constant added outside the absolute value the statement fails for a negative
  width: in a cell with an object whose selected box has the width \<open>-1\<close>, the source uses
  \<open>- sqrt 0.999999\<close>, not \<open>- sqrt 1.000001\<close>.
\<close>

theorem wh_transform_counterexample:
  "cells_of [[0, 0, 0, - 1, 0, 0, 0, 0, 0, 0]] [[1, 0, 0, 1, 1]]
     = Inr [(0, [0, 0, 0, - 1, 0, 0, 0, 0, 0, 0], [1, 0, 0, 1, 1])]
   \<and> box_predictions_masked (0, [0, 0, 0, - 1, 0, 0, 0, 0, 0, 0], [1, 0, 0, 1, 1]) ! 2 = - 1
   \<and> box_predictions (0, [0, 0, 0, - 1, 0, 0, 0, 0, 0, 0], [1, 0, 0, 1, 1]) ! 2
       \<noteq> sgn (- 1) * sqrt (\<bar>- 1\<bar> + 1 / 10 ^ 6)"
proof -
  let ?p = "[0, 0, 0, - 1, 0, 0, 0, 0, 0, 0 :: real]" and ?t = "[1, 0, 0, 1, 1 :: real]"
  have best: "best_index ?p ?t = 0"
    by (simp add: best_index_def slice_def box_of_def midpoint_corners_def iou_corners_def
        clamp0_def torch_max_def)
  have m: "box_predictions_masked (0, ?p, ?t) ! 2 = - 1"
    by (simp add: box_predictions_masked_eq)
  have "box_predictions (0, ?p, ?t) ! 2 = - sqrt (999999 / 1000000)"
    by (simp add: box_predictions_eq box_predictions_masked_eq Let_def)
  moreover have "sqrt (999999 / 1000000) \<noteq> sqrt (1 + 1 / 10 ^ 6)"
    by (simp only: real_sqrt_eq_iff) simp
  ultimately have "box_predictions (0, ?p, ?t) ! 2 \<noteq> sgn (- 1) * sqrt (\<bar>- 1\<bar> + 1 / 10 ^ 6)"
    by simp
  with m best show ?thesis
    by (simp add: cells_of_eq)
qed

lemma sqrt_residual_nonneg: "0 \<le> sqrt_residual v"
  by (simp add: sqrt_residual_def)





lemma select_same: "real best * x + (1 - real best) * x = x"
  by (simp add: algebra_simps)








lemma rows_replicate_nth:
  assumes "r \<in> set (rows C (replicate n x))" and "i < C"
  shows "r ! i = x"
proof -
  have "length r = C"
    using assms(1) by (rule length_row)
  with assms(2) have "r ! i \<in> set r"
    by (intro nth_mem) simp
  with rows_elems [OF assms(1)] show ?thesis
    by auto
qed

text \<open>
  The self-test with predictions that are all \<open>1e30\<close>: the loss is beyond the largest finite
  32-bit float, so that the scalar which the source returns is infinity.
\<close>

theorem forward_self_test_counterexample:
  "wf_tensor \<lparr>shape = [13, 7 * 7 * 10], data = replicate 6370 (10 ^ 30)\<rparr>
   \<and> (case forward (YoloLoss 7 2) \<lparr>shape = [13, 7 * 7 * 10], data = replicate 6370 (10 ^ 30)\<rparr>
              \<lparr>shape = [13, 7, 7, 10], data = replicate (13 * 7 * 7 * 10) 1\<rparr> of
         Inr (Some r) \<Rightarrow> float32_max < r
       | _ \<Rightarrow> False)"
proof -
  let ?self = "YoloLoss 7 2"
  let ?P = "\<lparr>shape = [13, 7 * 7 * 10], data = replicate 6370 ((10::real) ^ 30)\<rparr>"
  let ?T = "\<lparr>shape = [13, 7, 7, 10], data = replicate (13 * 7 * 7 * 10) (1::real)\<rparr>"
  let ?cells = "grid_cells ?self ?P ?T"
  have wf: "wf_tensor ?P"
    by (simp add: wf_tensor_def)
  have ok: "shapes_ok ?self ?P ?T 13 10"
    by (simp add: shapes_ok_def YoloLoss_def wf_tensor_def)
  have valid: "valid_target ?T"
    by (auto simp: valid_target_def target_rows_def list_all_iff intro: valid_row_ones)
  have cell: "p ! 0 = 10 ^ 30 \<and> p ! 5 = 10 ^ 30 \<and> t ! 0 = 1 \<and> 5 \<le> length t \<and> valid_row t"
    if "(best, p, t) \<in> set ?cells" for best p t
  proof -
    from that have "(p, t) \<in> set (zip (rows (B ?self * 5) (data ?P)) (target_rows ?T))"
      by (auto simp: grid_cells_def)
    then have p: "p \<in> set (rows 10 (replicate 6370 (10 ^ 30)))"
      and t: "t \<in> set (rows 10 (replicate (13 * 7 * 7 * 10) 1))"
      by (auto simp: YoloLoss_def target_rows_def dest: set_zip_leftD set_zip_rightD)
    from p have "p ! 0 = 10 ^ 30" "p ! 5 = 10 ^ 30"
      by (auto intro: rows_replicate_nth)
    moreover from t have "t ! 0 = 1"
      by (auto intro: rows_replicate_nth)
    moreover from t have "valid_row t"
      by (auto intro: valid_row_ones)
    moreover have "5 \<le> length t"
      using grid_cells_lengths(2) [OF ok that] .
    ultimately show ?thesis
      by simp
  qed
  have "object_loss ?cells = (\<Sum>c\<leftarrow>?cells. (10 ^ 30 - 1)\<^sup>2)"
    unfolding object_loss_def mse_map
  proof (intro arg_cong [where f = sum_list] map_cong refl)
    fix c assume c: "c \<in> set ?cells"
    obtain best p t where [simp]: "c = (best, p, t)"
      by (cases c) auto
    from cell [of best p t] c
    show "(exists_box (snd (snd c)) * pred_box c - exists_box (snd (snd c)) * snd (snd c) ! 0)\<^sup>2
        = (10 ^ 30 - 1)\<^sup>2"
      by (simp add: exists_box_def pred_box_def select_same)
  qed
  also have "\<dots> = real (length ?cells) * (10 ^ 30 - 1)\<^sup>2"
    by (simp only: sum_list_triv)
  also have "length ?cells = 13 * (7 * 7)"
    using length_grid_cells [OF ok] by (simp add: YoloLoss_def)
  finally have obj: "object_loss ?cells = real (13 * (7 * 7)) * (10 ^ 30 - 1)\<^sup>2" .
  have "\<forall>(best, p, t)\<in>set ?cells. 5 \<le> length t \<and> valid_row t"
    using cell by auto
  then obtain bl where bl: "box_loss ?cells = Some bl" "0 \<le> bl"
    using box_loss_defined by blast
  let ?l = "lambda_coord ?self * bl + object_loss ?cells + lambda_noobj ?self * no_object_loss ?cells"
  have fwd: "forward ?self ?P ?T = Inr (Some (?l / real 13))"
    unfolding forward_eq [OF ok] loss_def bl(1) by simp
  have "float32_max < 49 * (10 ^ 30 - 1)\<^sup>2"
    by (simp add: float32_max_def)
  also have "49 * ((10::real) ^ 30 - 1)\<^sup>2 = object_loss ?cells / real 13"
    unfolding obj by simp
  also have "\<dots> \<le> ?l / real 13"
    using bl(2) no_object_loss_nonneg [of ?cells]
    by (intro divide_right_mono) (simp_all add: YoloLoss_def)
  finally have "float32_max < ?l / real 13" .
  with wf fwd show ?thesis
    by simp
qed


end
